theory Spec2Isabelle
  imports Main "HOL-Library.Sublist"
begin

section \<open>Python strings and values used by the helpers\<close>

text \<open>
  Python \<open>str\<close> values are modelled as \<open>string\<close> (lists of characters); the model
  covers ASCII text, where a character of the model is a character of Python.
  Exceptions are values: every \<open>raise\<close> of the source is an \<open>Inl\<close> result carrying the
  exception class and its message.
\<close>

datatype py_error =
    ValueError string
  | UnknownLayoutVersion string
  | OSError string

text \<open>Whether a result is a raised \<open>UnknownLayoutVersion\<close>.\<close>

definition is_UnknownLayoutVersion :: "py_error + 'a \<Rightarrow> bool" where
  "is_UnknownLayoutVersion r =
     (case r of Inl (UnknownLayoutVersion m) \<Rightarrow> True | Inl e \<Rightarrow> False | Inr x \<Rightarrow> False)"

text \<open>\<open>s.split(sep)\<close> for a one-character separator: never the empty list.\<close>

fun py_split :: "char \<Rightarrow> string \<Rightarrow> string list" where
  "py_split sep [] = [[]]"
| "py_split sep (c # cs) =
     (if c = sep then [] # py_split sep cs
      else (case py_split sep cs of
              [] \<Rightarrow> [[c]]
            | f # fs \<Rightarrow> (c # f) # fs))"

text \<open>\<open>s.split('|')[0]\<close>: the first field of the split.\<close>

definition first_field :: "string \<Rightarrow> string" where
  "first_field s = (case py_split (CHR ''|'') s of [] \<Rightarrow> [] | f # fs \<Rightarrow> f)"

text \<open>
  \<open>str.strip()\<close> without argument removes leading and trailing whitespace. For ASCII
  text the whitespace characters are tab, line feed, vertical tab, form feed, carriage
  return, the four separators 0x1C..0x1F and the space.
\<close>

definition is_space :: "char \<Rightarrow> bool" where
  "is_space c = (c \<in> set [CHR 0x09, CHR 0x0A, CHR 0x0B, CHR 0x0C, CHR 0x0D,
                            CHR 0x1C, CHR 0x1D, CHR 0x1E, CHR 0x1F, CHR 0x20])"

definition py_strip :: "string \<Rightarrow> string" where
  "py_strip s = rev (dropWhile is_space (rev (dropWhile is_space s)))"

text \<open>\<open>sep.join(xs)\<close>.\<close>

fun py_join :: "string \<Rightarrow> string list \<Rightarrow> string" where
  "py_join sep [] = []"
| "py_join sep [x] = x"
| "py_join sep (x # y # ys) = x @ sep @ py_join sep (y # ys)"

text \<open>\<open>str(n)\<close> for an integer: decimal digits, with a minus sign when negative.\<close>

definition digit_char :: "nat \<Rightarrow> char" where
  "digit_char d = ''0123456789'' ! (d mod 10)"

fun nat_digits :: "nat \<Rightarrow> string" where
  "nat_digits n =
     (if n < 10 then [digit_char n] else nat_digits (n div 10) @ [digit_char (n mod 10)])"

declare nat_digits.simps [simp del]

definition py_str_int :: "int \<Rightarrow> string" where
  "py_str_int i = (if i < 0 then CHR ''-'' # nat_digits (nat (- i)) else nat_digits (nat i))"

text \<open>
  \<open>repr(s)\<close> of a string, as \<open>format\<close> prints the elements of a list: single quotes
  unless the text holds a single quote and no double quote; backslash, the chosen quote,
  tab, line feed and carriage return are escaped, other control characters are written
  \<open>\xNN\<close>.
\<close>

definition hex_char :: "nat \<Rightarrow> char" where
  "hex_char d = ''0123456789abcdef'' ! (d mod 16)"

definition repr_char :: "char \<Rightarrow> char \<Rightarrow> string" where
  "repr_char q c =
     (if c = CHR 0x5C then [CHR 0x5C, CHR 0x5C]
      else if c = q then [CHR 0x5C, q]
      else if c = CHR 0x09 then [CHR 0x5C, CHR ''t'']
      else if c = CHR 0x0A then [CHR 0x5C, CHR ''n'']
      else if c = CHR 0x0D then [CHR 0x5C, CHR ''r'']
      else if of_char c < (32::nat) \<or> c = CHR 0x7F
        then [CHR 0x5C, CHR ''x'', hex_char (of_char c div 16), hex_char (of_char c mod 16)]
      else [c])"

definition py_repr :: "string \<Rightarrow> string" where
  "py_repr s =
     (let q = (if CHR 0x27 \<in> set s \<and> CHR 0x22 \<notin> set s then CHR 0x22 else CHR 0x27)
      in q # concat (map (repr_char q) s) @ [q])"

definition py_repr_list :: "string list \<Rightarrow> string" where
  "py_repr_list xs = ''['' @ py_join '', '' (map py_repr xs) @ '']''"

text \<open>
  \<open>int(s)\<close> for a string, base 10: surrounding whitespace is dropped, one sign is
  allowed, then decimal digits, where single underscores may stand between digits.
  Anything else raises \<open>ValueError\<close>.
\<close>

definition is_digit :: "char \<Rightarrow> bool" where
  "is_digit c = (c \<in> set ''0123456789'')"

definition digit_val :: "char \<Rightarrow> nat" where
  "digit_val c = of_char c - 48"

fun valid_digits :: "string \<Rightarrow> bool" where
  "valid_digits [] = False"
| "valid_digits [c] = is_digit c"
| "valid_digits (c # d # cs) =
     (is_digit c \<and> (if d = CHR ''_'' then valid_digits cs else valid_digits (d # cs)))"

definition digits_val :: "string \<Rightarrow> nat" where
  "digits_val ds = foldl (\<lambda>acc c. 10 * acc + digit_val c) 0 ds"

definition py_int :: "string \<Rightarrow> py_error + int" where
  "py_int s =
     (let t = py_strip s;
          neg = (case t of [] \<Rightarrow> False | c # cs \<Rightarrow> c = CHR ''-'');
          body = (case t of [] \<Rightarrow> [] | c # cs \<Rightarrow> if c = CHR ''-'' \<or> c = CHR ''+'' then cs else t)
      in if valid_digits body
         then (let n = int (digits_val (filter (\<lambda>c. c \<noteq> CHR ''_'') body))
               in Inr (if neg then - n else n))
         else Inl (ValueError (''invalid literal for int() with base 10: '' @ py_repr s)))"

section \<open>Paths\<close>

text \<open>
  \<open>datalad.utils.Path\<close> is \<open>pathlib.Path\<close>. A POSIX path is its root (\<open>''''\<close> for a
  relative path, \<open>/\<close>, or \<open>//\<close> for exactly two leading slashes) and its components.
  The operator \<open>/\<close> parses its right operand: empty components and \<open>.\<close> are
  dropped, and an operand that starts with a slash replaces the left operand.
\<close>

record posix_path =
  proot :: string
  pparts :: "string list"

definition splitroot :: "string \<Rightarrow> string" where
  "splitroot s =
     (let n = length (takeWhile (\<lambda>c. c = CHR ''/'') s)
      in if n = 0 then [] else if n = 2 then ''//'' else ''/'')"

definition components :: "string \<Rightarrow> string list" where
  "components s = filter (\<lambda>x. x \<noteq> [] \<and> x \<noteq> ''.'') (py_split (CHR ''/'') s)"

definition joinpath :: "posix_path \<Rightarrow> string \<Rightarrow> posix_path" where
  "joinpath p s =
     (if splitroot s \<noteq> [] then \<lparr>proot = splitroot s, pparts = components s\<rparr>
      else \<lparr>proot = proot p, pparts = pparts p @ components s\<rparr>)"

text \<open>\<open>Path(s)\<close> and \<open>str(p)\<close>.\<close>

definition Path :: "string \<Rightarrow> posix_path" where
  "Path s = joinpath \<lparr>proot = [], pparts = []\<rparr> s"

definition path_str :: "posix_path \<Rightarrow> string" where
  "path_str p =
     (if proot p = [] \<and> pparts p = [] then ''.''
      else proot p @ py_join ''/'' (pparts p))"

section \<open>Layout of a dataset in a RIA store\<close>

definition known_versions_objt :: "string list" where
  "known_versions_objt = [''1'', ''2'']"

definition known_versions_dst :: "string list" where
  "known_versions_dst = [''1'']"

definition get_layout_locations ::
    "int \<Rightarrow> posix_path \<Rightarrow> string \<Rightarrow> py_error + (posix_path \<times> posix_path \<times> posix_path)" where
  "get_layout_locations version base_path dsid =
     (if version = 1 then
        (let dsgit_dir = joinpath (joinpath base_path (take 3 dsid)) (drop 3 dsid);
             archive_dir = joinpath dsgit_dir ''archives'';
             dsobj_dir = joinpath (joinpath dsgit_dir ''annex'') ''objects''
         in Inr (dsgit_dir, archive_dir, dsobj_dir))
      else Inl (ValueError (''Unknown layout version: '' @ py_str_int version
                            @ ''. Supported: '' @ py_repr_list known_versions_dst)))"

section \<open>Storage\<close>

text \<open>
  Modelled from the spec: the StorageIO capability (\<open>SSHRemoteIO\<close>, \<open>LocalIO\<close>) is not
  part of the sources at hand. The spec gives it four operations: \<open>exists(path)\<close>,
  \<open>readFile(path)\<close>, \<open>writeFile(path, content)\<close> and \<open>mkdir(path)\<close>, which creates
  intermediate parents, with identical semantics for a local-filesystem backend and a
  remote backend. A file system maps paths to entries. The local backend works on the
  file system of the running process, the one \<open>Path.exists\<close>, \<open>Path.read_text\<close> and
  \<open>Path.unlink\<close> see; the remote backend works on the file system of the remote host.
  Reading a path that holds no file has no result in the spec and is an \<open>OSError\<close> here.
\<close>

datatype entry = File string | Dir

type_synonym fs = "posix_path \<Rightarrow> entry option"

datatype io = LocalIO | SSHRemoteIO

text \<open>The mutating calls, in the order they were made.\<close>

datatype event =
    Mkdir io posix_path
  | WriteFile io posix_path string
  | Unlink posix_path

record world =
  local_fs :: fs
  remote_fs :: fs
  log :: "event list"

definition fs_of :: "io \<Rightarrow> world \<Rightarrow> fs" where
  "fs_of b w = (case b of LocalIO \<Rightarrow> local_fs w | SSHRemoteIO \<Rightarrow> remote_fs w)"

definition set_fs :: "io \<Rightarrow> fs \<Rightarrow> world \<Rightarrow> world" where
  "set_fs b f w = (case b of LocalIO \<Rightarrow> w\<lparr>local_fs := f\<rparr> | SSHRemoteIO \<Rightarrow> w\<lparr>remote_fs := f\<rparr>)"

definition fs_exists :: "fs \<Rightarrow> posix_path \<Rightarrow> bool" where
  "fs_exists f p = (f p \<noteq> None)"

definition fs_read :: "fs \<Rightarrow> posix_path \<Rightarrow> py_error + string" where
  "fs_read f p =
     (case f p of
        Some (File c) \<Rightarrow> Inr c
      | Some Dir \<Rightarrow> Inl (OSError (''Is a directory: '' @ path_str p))
      | None \<Rightarrow> Inl (OSError (''No such file or directory: '' @ path_str p)))"

text \<open>\<open>q\<close> is \<open>p\<close> or one of its parents.\<close>

definition parent_or_self :: "posix_path \<Rightarrow> posix_path \<Rightarrow> bool" where
  "parent_or_self q p = (proot q = proot p \<and> prefix (pparts q) (pparts p))"

definition fs_mkdir :: "posix_path \<Rightarrow> fs \<Rightarrow> fs" where
  "fs_mkdir p f = (\<lambda>q. if parent_or_self q p \<and> f q = None then Some Dir else f q)"

definition fs_write :: "posix_path \<Rightarrow> string \<Rightarrow> fs \<Rightarrow> fs" where
  "fs_write p c f = f(p \<mapsto> File c)"

text \<open>The change an event makes to the file systems, and the call that makes it.\<close>

fun effect :: "event \<Rightarrow> world \<Rightarrow> world" where
  "effect (Mkdir b p) w = set_fs b (fs_mkdir p (fs_of b w)) w"
| "effect (WriteFile b p c) w = set_fs b (fs_write p c (fs_of b w)) w"
| "effect (Unlink p) w = w\<lparr>local_fs := (local_fs w)(p := None)\<rparr>"

definition do_event :: "event \<Rightarrow> world \<Rightarrow> world" where
  "do_event e w = (effect e w)\<lparr>log := log w @ [e]\<rparr>"

definition io_exists :: "io \<Rightarrow> posix_path \<Rightarrow> world \<Rightarrow> bool" where
  "io_exists b p w = fs_exists (fs_of b w) p"

definition io_read_file :: "io \<Rightarrow> posix_path \<Rightarrow> world \<Rightarrow> py_error + string" where
  "io_read_file b p w = fs_read (fs_of b w) p"

definition io_mkdir :: "io \<Rightarrow> posix_path \<Rightarrow> world \<Rightarrow> world" where
  "io_mkdir b p w = do_event (Mkdir b p) w"

definition io_write_file :: "io \<Rightarrow> posix_path \<Rightarrow> string \<Rightarrow> world \<Rightarrow> world" where
  "io_write_file b p c w = do_event (WriteFile b p c) w"

text \<open>\<open>Path.exists()\<close> and \<open>Path.read_text()\<close>: always the local file system.\<close>

definition path_exists :: "posix_path \<Rightarrow> world \<Rightarrow> bool" where
  "path_exists p w = fs_exists (local_fs w) p"

definition path_read_text :: "posix_path \<Rightarrow> world \<Rightarrow> py_error + string" where
  "path_read_text p w = fs_read (local_fs w) p"

section \<open>Creating a store and a dataset in a store\<close>

definition create_store :: "io \<Rightarrow> posix_path \<Rightarrow> string \<Rightarrow> world \<Rightarrow> (py_error + unit) \<times> world" where
  "create_store b base_path version w =
     (if version \<notin> set known_versions_dst then
        (Inl (UnknownLayoutVersion (''RIA store layout version unknown: '' @ version
                @ ''.Supported versions: '' @ py_repr_list known_versions_dst)), w)
      else
        (let error_logs = joinpath base_path ''error_logs'';
             version_file = joinpath base_path ''ria-layout-version''
         in if io_exists b version_file w then
              (case io_read_file b version_file w of
                 Inl e \<Rightarrow> (Inl e, w)
               | Inr content \<Rightarrow>
                   (let existing_version = py_strip (first_field content)
                    in if existing_version \<noteq> first_field version then
                         (Inl (ValueError (''Conflicting version found at target: ''
                                 @ existing_version)), w)
                       else (Inr (), w)))
            else (Inr (), io_write_file b version_file version (io_mkdir b error_logs w))))"

text \<open>
  The \<open>try\<close> block of \<open>create_ds_in_store\<close>: a \<open>ValueError\<close> of \<open>int\<close> or of
  \<open>get_layout_locations\<close> is raised again as \<open>UnknownLayoutVersion\<close> with the same
  message.
\<close>

definition locations_or_unknown ::
    "string \<Rightarrow> posix_path \<Rightarrow> string \<Rightarrow> py_error + (posix_path \<times> posix_path \<times> posix_path)" where
  "locations_or_unknown store_version base_path dsid =
     (case py_int store_version of
        Inl (ValueError m) \<Rightarrow> Inl (UnknownLayoutVersion m)
      | Inl e \<Rightarrow> Inl e
      | Inr v \<Rightarrow>
          (case get_layout_locations v base_path dsid of
             Inl (ValueError m) \<Rightarrow> Inl (UnknownLayoutVersion m)
           | Inl e \<Rightarrow> Inl e
           | Inr r \<Rightarrow> Inr r))"

definition create_ds_in_store ::
    "io \<Rightarrow> posix_path \<Rightarrow> string \<Rightarrow> string \<Rightarrow> string \<Rightarrow> world \<Rightarrow> (py_error + unit) \<times> world" where
  "create_ds_in_store b base_path dsid obj_version store_version w =
     (case locations_or_unknown store_version base_path dsid of
        Inl e \<Rightarrow> (Inl e, w)
      | Inr (dsgit_dir, archive_dir, dsobj_dir) \<Rightarrow>
          if obj_version \<notin> set known_versions_objt then
            (Inl (UnknownLayoutVersion (''Dataset layout version unknown: '' @ obj_version
                    @ ''. Supported: '' @ py_repr_list known_versions_objt)), w)
          else
            (let version_file = joinpath dsgit_dir ''ria-layout-version'' in
             case (if path_exists version_file w then
                     (case path_read_text version_file w of
                        Inl e \<Rightarrow> Inl e
                      | Inr content \<Rightarrow>
                          (let existing_version = py_strip (first_field content)
                           in if existing_version \<noteq> first_field obj_version then
                                Inl (ValueError (''Conflicting dataset layout version found at ''
                                       @ ''target: '' @ existing_version))
                              else Inr ()))
                   else Inr ()) of
               Inl e \<Rightarrow> (Inl e, w)
             | Inr u \<Rightarrow>
                 (Inr (), io_write_file b version_file obj_version
                            (io_mkdir b dsobj_dir (io_mkdir b archive_dir w)))))"

text \<open>The worlds a run passes through: the start, then one more after each event.\<close>

fun replay :: "event list \<Rightarrow> world \<Rightarrow> world" where
  "replay [] w = w"
| "replay (e # es) w = replay es (do_event e w)"

section \<open>Verifying a RIA URL\<close>

text \<open>
  The fields of a parsed URL that \<open>verify_ria_url\<close> reads. An absent field is the
  empty string.
\<close>

record url_ri =
  scheme :: string
  hostname :: string
  path :: string
  fragment :: string

text \<open>
  \<open>rewrite_url\<close> (\<open>datalad.config\<close>) and the parser \<open>URL\<close>
  (\<open>datalad.support.network\<close>) are imported by the function and are its parameters
  here.
\<close>

definition verify_ria_url ::
    "('cfg \<Rightarrow> string \<Rightarrow> string) \<Rightarrow> (string \<Rightarrow> url_ri) \<Rightarrow> string \<Rightarrow> 'cfg
      \<Rightarrow> py_error + (string option \<times> string \<times> string)" where
  "verify_ria_url rewrite_url URL url cfg =
     (if url = [] then Inl (ValueError ''Got no URL'')
      else
        (let url1 = rewrite_url cfg url;
             ri = URL url1
         in if \<not> prefix ''ria+'' (scheme ri) then
              Inl (ValueError (''Missing ria+ prefix in final URL: '' @ url1))
            else if fragment ri \<noteq> [] then
              Inl (ValueError (''Unexpected fragment in RIA-store URL: '' @ fragment ri))
            else
              (let protocol = drop 4 (scheme ri)
               in if protocol \<notin> set [''ssh'', ''file''] then
                    Inl (ValueError (''Unsupported protocol: '' @ protocol
                                     @ ''. Supported: ssh, file''))
                  else Inr (if protocol = ''ssh'' then Some (hostname ri) else None,
                            path ri, url1))))"

text \<open>
  Modelled from the spec: the URL parser is not part of the sources at hand. The spec
  accepts \<open>ria+ssh://<host>/<path>\<close> and \<open>ria+file:///<path>\<close> and names a
  fragment component: the scheme is the text before the first \<open>://\<close>, the host runs
  up to the next slash, the path from that slash to the first \<open>#\<close>, and the fragment
  follows the \<open>#\<close>. A text without \<open>://\<close> has no scheme and no host.
\<close>

fun split_scheme :: "string \<Rightarrow> string \<Rightarrow> (string \<times> string) option" where
  "split_scheme acc [] = None"
| "split_scheme acc (c # cs) =
     (if take 3 (c # cs) = ''://'' then Some (rev acc, drop 3 (c # cs))
      else split_scheme (c # acc) cs)"

definition spec_URL :: "string \<Rightarrow> url_ri" where
  "spec_URL s =
     (let body = takeWhile (\<lambda>c. c \<noteq> CHR ''#'') s;
          frag = drop (Suc (length body)) s
      in case split_scheme [] body of
           None \<Rightarrow> \<lparr>scheme = [], hostname = [], path = body, fragment = frag\<rparr>
         | Some (sch, rest) \<Rightarrow>
             \<lparr>scheme = sch, hostname = takeWhile (\<lambda>c. c \<noteq> CHR ''/'') rest,
              path = dropWhile (\<lambda>c. c \<noteq> CHR ''/'') rest, fragment = frag\<rparr>)"

text \<open>A configuration without rewrite rules: \<open>rewrite_url\<close> returns the URL as it is.\<close>

definition no_rewrite :: "unit \<Rightarrow> string \<Rightarrow> string" where
  "no_rewrite cfg url = url"

section \<open>The 7-Zip archive helpers\<close>

text \<open>
  A command for \<open>Runner.run\<close>: one string for the shell, or a list of arguments.
  \<open>Runner\<close> (\<open>datalad.cmd\<close>) and \<open>quote_cmdlinearg\<close> (\<open>datalad.utils\<close>) are imported
  by the module and are parameters here: \<open>run cwd cmd\<close> stands for
  \<open>Runner(cwd=cwd).run(cmd)\<close>.
\<close>

datatype cmd = Shell string | Argv "string list"

type_synonym runner = "string option \<Rightarrow> cmd \<Rightarrow> world \<Rightarrow> (py_error + unit) \<times> world"

text \<open>\<open>Path.name\<close> and \<open>Path.suffixes\<close>.\<close>

definition path_name :: "posix_path \<Rightarrow> string" where
  "path_name p = (if pparts p = [] then [] else last (pparts p))"

definition suffixes :: "posix_path \<Rightarrow> string list" where
  "suffixes p =
     (let name = path_name p
      in if name \<noteq> [] \<and> last name = CHR ''.'' then []
         else map (\<lambda>x. CHR ''.'' # x)
                (tl (py_split (CHR ''.'') (dropWhile (\<lambda>c. c = CHR ''.'') name))))"

text \<open>\<open>len(apath.suffixes) > 1 and apath.suffixes[-2] == '.tar'\<close>.\<close>

definition is_compressed_tar :: "posix_path \<Rightarrow> bool" where
  "is_compressed_tar p = (length (suffixes p) > 1 \<and> rev (suffixes p) ! 1 = ''.tar'')"


definition decompress_file ::
    "runner \<Rightarrow> (string \<Rightarrow> string) \<Rightarrow> string \<Rightarrow> string \<Rightarrow> world \<Rightarrow> (py_error + unit) \<times> world" where
  "decompress_file run quote_cmdlinearg archive dir' w =
     (let apath = Path archive;
          cmd = (if is_compressed_tar apath
                 then Shell (''7z x '' @ quote_cmdlinearg archive @ '' -so | 7z x -si -ttar'')
                 else Argv [''7z'', ''x'', archive])
      in run (Some dir') cmd w)"



section \<open>Observations on runs\<close>

text \<open>A world with nothing stored and no call made.\<close>

definition empty_world :: world where
  "empty_world = \<lparr>local_fs = (\<lambda>p. None), remote_fs = (\<lambda>p. None), log = []\<rparr>"

text \<open>The events a run from \<open>w\<close> to \<open>w1\<close> added to the log.\<close>

definition new_events :: "world \<Rightarrow> world \<Rightarrow> event list" where
  "new_events w w1 = drop (length (log w)) (log w1)"

fun is_write :: "event \<Rightarrow> bool" where
  "is_write (WriteFile b p c) = True"
| "is_write (Mkdir b p) = False"
| "is_write (Unlink p) = False"

text \<open>
  In the storage of backend \<open>b\<close>, a version stamp is never without the two directories
  of its dataset.
\<close>

definition stamp_has_dirs :: "io \<Rightarrow> posix_path \<Rightarrow> posix_path \<Rightarrow> posix_path \<Rightarrow> world \<Rightarrow> bool" where
  "stamp_has_dirs b version_file archive_dir dsobj_dir w =
     (io_exists b version_file w \<longrightarrow> io_exists b archive_dir w \<and> io_exists b dsobj_dir w)"

section \<open>Basic facts about the string and path operations\<close>

lemma py_split_not_Nil: "py_split sep s \<noteq> []"
  by (induction s) (auto split: list.splits)

lemma hd_py_split: "hd (py_split sep s) = takeWhile (\<lambda>c. c \<noteq> sep) s"
proof (induction s)
  case Nil
  show ?case by simp
next
  case (Cons c cs)
  then show ?case
    using py_split_not_Nil [of sep cs] by (cases "py_split sep cs") auto
qed

lemma first_field_takeWhile: "first_field s = takeWhile (\<lambda>c. c \<noteq> CHR ''|'') s"
  using hd_py_split [of "CHR ''|''" s] py_split_not_Nil [of "CHR ''|''" s]
  by (cases "py_split (CHR ''|'') s") (auto simp: first_field_def)

lemma components_Nil: "components [] = []"
  by (simp add: components_def)

lemma joinpath_empty: "joinpath p [] = p"
  by (simp add: joinpath_def splitroot_def components_Nil)

lemma py_repr_list_known_versions_dst: "py_repr_list known_versions_dst = ''['1']''"
  by (simp add: py_repr_list_def known_versions_dst_def py_repr_def repr_char_def Let_def)

lemma py_repr_list_known_versions_objt: "py_repr_list known_versions_objt = ''['1', '2']''"
  by (simp add: py_repr_list_def known_versions_objt_def py_repr_def repr_char_def Let_def)

section \<open>The layout resolver\<close>

text \<open>
  C3. With the layout version equal to the integer 1, \<open>get_layout_locations\<close> returns,
  for every base path and dataset id, exactly the three paths
  \<open>repo = base_path / dsid[:3] / dsid[3:]\<close>, \<open>repo / 'archives'\<close> and
  \<open>repo / 'annex' / 'objects'\<close>. The function takes no storage and returns none: its
  result depends on its three arguments only.
\<close>

theorem get_layout_locations_v1:
  "get_layout_locations 1 base_path dsid =
     Inr (joinpath (joinpath base_path (take 3 dsid)) (drop 3 dsid),
          joinpath (joinpath (joinpath base_path (take 3 dsid)) (drop 3 dsid)) ''archives'',
          joinpath (joinpath (joinpath (joinpath base_path (take 3 dsid)) (drop 3 dsid))
                     ''annex'') ''objects'')"
  by (simp add: get_layout_locations_def Let_def)

theorem get_layout_locations_v1_witness:
  "get_layout_locations 1 (Path ''/srv/store'') ''abcdef'' =
     Inr (\<lparr>proot = ''/'', pparts = [''srv'', ''store'', ''abc'', ''def'']\<rparr>,
          \<lparr>proot = ''/'', pparts = [''srv'', ''store'', ''abc'', ''def'', ''archives'']\<rparr>,
          \<lparr>proot = ''/'', pparts = [''srv'', ''store'', ''abc'', ''def'', ''annex'', ''objects'']\<rparr>)"
  using get_layout_locations_v1 [of "Path ''/srv/store''" "''abcdef''"]
  by (simp add: Path_def joinpath_def splitroot_def components_def)

text \<open>
  C4, as the code has it. For every layout version other than 1,
  \<open>get_layout_locations\<close> raises \<open>ValueError\<close>; the message holds the offending
  version and the list of supported versions, \<open>['1']\<close>. The class
  \<open>UnknownLayoutVersion\<close> is raised by the caller: \<open>create_ds_in_store\<close>, given a
  store version that reads as such a number, raises \<open>UnknownLayoutVersion\<close> with the
  same message and touches nothing.
\<close>

theorem get_layout_locations_unknown:
  "version \<noteq> 1 \<Longrightarrow>
   get_layout_locations version base_path dsid =
     Inl (ValueError (''Unknown layout version: '' @ py_str_int version
                      @ ''. Supported: ['1']'')) \<and>
   (py_int store_version = Inr version \<longrightarrow>
      create_ds_in_store b base_path dsid obj_version store_version w =
        (Inl (UnknownLayoutVersion (''Unknown layout version: '' @ py_str_int version
                @ ''. Supported: ['1']'')), w))"
  by (simp add: get_layout_locations_def py_repr_list_known_versions_dst
      create_ds_in_store_def locations_or_unknown_def)

theorem get_layout_locations_unknown_witness:
  "get_layout_locations 2 (Path ''/srv/store'') ''abcdef'' =
     Inl (ValueError ''Unknown layout version: 2. Supported: ['1']'') \<and>
   create_ds_in_store LocalIO (Path ''/srv/store'') ''abcdef'' ''1'' ''2'' empty_world =
     (Inl (UnknownLayoutVersion ''Unknown layout version: 2. Supported: ['1']''), empty_world)"
proof -
  have ne: "(2::int) \<noteq> 1"
    by simp
  have i: "py_int ''2'' = Inr 2"
    by code_simp
  have s: "py_str_int 2 = ''2''"
    by code_simp
  from get_layout_locations_unknown [OF ne, of "Path ''/srv/store''" "''abcdef''" "''2''"
      LocalIO "''1''" empty_world] i s
  show ?thesis by simp
qed

text \<open>
  The claim as the spec words it fails: layout version 2 is answered with a
  \<open>ValueError\<close>, which is not the \<open>UnknownLayoutVersion\<close> error.
\<close>

theorem get_layout_locations_unknown_counterexample:
  "\<not> is_UnknownLayoutVersion (get_layout_locations 2 (Path ''/srv/store'') ''abcdef'')"
  by (simp add: get_layout_locations_def is_UnknownLayoutVersion_def)

text \<open>
  C10. A dataset id of fewer than three characters is accepted with version 1: the
  slice \<open>dsid[:3]\<close> is the whole id and \<open>dsid[3:]\<close> is empty, joining the empty string
  adds no level, so the repository directory is \<open>base_path / dsid\<close>, and the archive
  and object directories are derived from it as usual.
\<close>

theorem get_layout_locations_short_id:
  "length dsid < 3 \<Longrightarrow>
   get_layout_locations 1 base_path dsid =
     Inr (joinpath base_path dsid,
          joinpath (joinpath base_path dsid) ''archives'',
          joinpath (joinpath (joinpath base_path dsid) ''annex'') ''objects'')"
  by (simp add: get_layout_locations_def Let_def joinpath_empty)

theorem get_layout_locations_short_id_witness:
  "length ''ab'' < 3 \<and>
   get_layout_locations 1 (Path ''/srv/store'') ''ab'' =
     Inr (\<lparr>proot = ''/'', pparts = [''srv'', ''store'', ''ab'']\<rparr>,
          \<lparr>proot = ''/'', pparts = [''srv'', ''store'', ''ab'', ''archives'']\<rparr>,
          \<lparr>proot = ''/'', pparts = [''srv'', ''store'', ''ab'', ''annex'', ''objects'']\<rparr>)"
  using get_layout_locations_short_id [of "''ab''" "Path ''/srv/store''"]
  by (simp add: Path_def joinpath_def splitroot_def components_def)

section \<open>Basic facts about storage\<close>

lemma fs_of_set_fs: "fs_of b (set_fs b f w) = f"
  by (cases b) (simp_all add: fs_of_def set_fs_def)

lemma fs_of_log_update: "fs_of b (w\<lparr>log := l\<rparr>) = fs_of b w"
  by (cases b) (simp_all add: fs_of_def)

lemma io_exists_write_file: "io_exists b p (io_write_file b p c w)"
  by (simp add: io_exists_def io_write_file_def do_event_def fs_of_log_update fs_of_set_fs
      fs_exists_def fs_write_def)

lemma io_exists_write_file_mono: "io_exists b q w \<Longrightarrow> io_exists b q (io_write_file b p c w)"
  by (simp add: io_exists_def io_write_file_def do_event_def fs_of_log_update fs_of_set_fs
      fs_exists_def fs_write_def)

lemma io_read_file_write_file: "io_read_file b p (io_write_file b p c w) = Inr c"
  by (simp add: io_read_file_def io_write_file_def do_event_def fs_of_log_update fs_of_set_fs
      fs_read_def fs_write_def)

lemma io_read_file_exists: "io_read_file b p w = Inr c \<Longrightarrow> io_exists b p w"
  by (auto simp: io_read_file_def io_exists_def fs_read_def fs_exists_def
      split: option.splits entry.splits)

lemma io_exists_mkdir_self: "io_exists b p (io_mkdir b p w)"
  by (simp add: io_exists_def io_mkdir_def do_event_def fs_of_log_update fs_of_set_fs
      fs_exists_def fs_mkdir_def parent_or_self_def)

lemma io_exists_mkdir_mono: "io_exists b q w \<Longrightarrow> io_exists b q (io_mkdir b p w)"
  by (simp add: io_exists_def io_mkdir_def do_event_def fs_of_log_update fs_of_set_fs
      fs_exists_def fs_mkdir_def)

lemma io_exists_mkdir_other:
  "\<not> parent_or_self q p \<Longrightarrow> io_exists b q (io_mkdir b p w) = io_exists b q w"
  by (simp add: io_exists_def io_mkdir_def do_event_def fs_of_log_update fs_of_set_fs
      fs_exists_def fs_mkdir_def)

lemma log_io_mkdir: "log (io_mkdir b p w) = log w @ [Mkdir b p]"
  by (simp add: io_mkdir_def do_event_def)

lemma log_io_write_file: "log (io_write_file b p c w) = log w @ [WriteFile b p c]"
  by (simp add: io_write_file_def do_event_def)

lemma new_events_self: "new_events w w = []"
  by (simp add: new_events_def)

lemma joinpath_archives:
  "joinpath p ''archives'' = \<lparr>proot = proot p, pparts = pparts p @ [''archives'']\<rparr>"
  by (simp add: joinpath_def splitroot_def components_def)

lemma joinpath_annex_objects:
  "joinpath (joinpath p ''annex'') ''objects'' =
     \<lparr>proot = proot p, pparts = pparts p @ [''annex'', ''objects'']\<rparr>"
  by (simp add: joinpath_def splitroot_def components_def)

lemma joinpath_version_file:
  "joinpath p ''ria-layout-version'' =
     \<lparr>proot = proot p, pparts = pparts p @ [''ria-layout-version'']\<rparr>"
  by (simp add: joinpath_def splitroot_def components_def)

lemma version_file_not_above_archives:
  "\<not> parent_or_self (joinpath p ''ria-layout-version'') (joinpath p ''archives'')"
  by (simp add: parent_or_self_def joinpath_archives joinpath_version_file)

lemma supported_store_version: "version \<in> set known_versions_dst \<Longrightarrow> version = ''1''"
  by (simp add: known_versions_dst_def)

lemma first_field_1: "first_field ''1'' = ''1''"
  by (simp add: first_field_def)

lemma py_strip_1: "py_strip ''1'' = ''1''"
  by (simp add: py_strip_def is_space_def)

lemma locations_or_unknown_dirs:
  assumes "locations_or_unknown store_version base_path dsid =
             Inr (dsgit_dir, archive_dir, dsobj_dir)"
  shows "archive_dir = joinpath dsgit_dir ''archives'' \<and>
         dsobj_dir = joinpath (joinpath dsgit_dir ''annex'') ''objects''"
  using assms
  by (auto simp: locations_or_unknown_def get_layout_locations_def Let_def
      split: sum.splits py_error.splits if_splits)

lemma create_ds_in_store_cases:
  assumes "locations_or_unknown store_version base_path dsid =
             Inr (dsgit_dir, archive_dir, dsobj_dir)"
  shows "snd (create_ds_in_store b base_path dsid obj_version store_version w) = w \<or>
         snd (create_ds_in_store b base_path dsid obj_version store_version w) =
           io_write_file b (joinpath dsgit_dir ''ria-layout-version'') obj_version
             (io_mkdir b dsobj_dir (io_mkdir b archive_dir w))"
  using assms by (simp add: create_ds_in_store_def Let_def split: sum.splits)

section \<open>The store initializer\<close>

text \<open>
  C1, as the code has it. When the requested version is a supported one (only \<open>1\<close>)
  and the version file of the store holds \<open>content\<close>, \<open>create_store\<close> compares the
  part of \<open>content\<close> before the first \<open>|\<close>, stripped of surrounding whitespace, with
  the part of the requested version before its first \<open>|\<close>: when they differ it raises
  the version conflict, a \<open>ValueError\<close> that reports the stored value so read, and when
  they agree it succeeds; the storage is untouched either way. A stored
  \<open>1|some-config\<close> is therefore compared as \<open>1\<close>. A requested version that is not
  supported is refused with \<open>UnknownLayoutVersion\<close>, whatever the store holds.
\<close>

theorem create_store_conflict:
  "(version \<in> set known_versions_dst \<longrightarrow>
    io_read_file b (joinpath base_path ''ria-layout-version'') w = Inr content \<longrightarrow>
      create_store b base_path version w =
        (if py_strip (takeWhile (\<lambda>c. c \<noteq> CHR ''|'') content)
              \<noteq> takeWhile (\<lambda>c. c \<noteq> CHR ''|'') version
         then Inl (ValueError (''Conflicting version found at target: ''
                     @ py_strip (takeWhile (\<lambda>c. c \<noteq> CHR ''|'') content)))
         else Inr (), w)) \<and>
   (version \<notin> set known_versions_dst \<longrightarrow>
      create_store b base_path version w =
        (Inl (UnknownLayoutVersion (''RIA store layout version unknown: '' @ version
                @ ''.Supported versions: ['1']'')), w))"
proof (intro conjI impI)
  assume v: "version \<in> set known_versions_dst"
    and r: "io_read_file b (joinpath base_path ''ria-layout-version'') w = Inr content"
  from v r io_read_file_exists [OF r]
  show "create_store b base_path version w =
        (if py_strip (takeWhile (\<lambda>c. c \<noteq> CHR ''|'') content)
              \<noteq> takeWhile (\<lambda>c. c \<noteq> CHR ''|'') version
         then Inl (ValueError (''Conflicting version found at target: ''
                     @ py_strip (takeWhile (\<lambda>c. c \<noteq> CHR ''|'') content)))
         else Inr (), w)"
    by (simp add: create_store_def Let_def first_field_takeWhile)
next
  assume "version \<notin> set known_versions_dst"
  then show "create_store b base_path version w =
        (Inl (UnknownLayoutVersion (''RIA store layout version unknown: '' @ version
                @ ''.Supported versions: ['1']'')), w)"
    by (simp add: create_store_def py_repr_list_known_versions_dst)
qed

theorem create_store_conflict_witness:
  "create_store LocalIO (Path ''/srv/store'') ''1''
     (io_write_file LocalIO (joinpath (Path ''/srv/store'') ''ria-layout-version'')
        ''1|some-config'' empty_world) =
     (Inr (), io_write_file LocalIO (joinpath (Path ''/srv/store'') ''ria-layout-version'')
        ''1|some-config'' empty_world) \<and>
   create_store LocalIO (Path ''/srv/store'') ''1''
     (io_write_file LocalIO (joinpath (Path ''/srv/store'') ''ria-layout-version'')
        ''2|some-config'' empty_world) =
     (Inl (ValueError ''Conflicting version found at target: 2''),
      io_write_file LocalIO (joinpath (Path ''/srv/store'') ''ria-layout-version'')
        ''2|some-config'' empty_world) \<and>
   create_store LocalIO (Path ''/srv/store'') ''2'' empty_world =
     (Inl (UnknownLayoutVersion
             ''RIA store layout version unknown: 2.Supported versions: ['1']''),
      empty_world)"
proof -
  have v: "''1'' \<in> set known_versions_dst" and u: "''2'' \<notin> set known_versions_dst"
    by (simp_all add: known_versions_dst_def)
  show ?thesis
    using create_store_conflict [of "''1''" LocalIO "Path ''/srv/store''"
        "io_write_file LocalIO (joinpath (Path ''/srv/store'') ''ria-layout-version'')
           ''1|some-config'' empty_world" "''1|some-config''"]
      create_store_conflict [of "''1''" LocalIO "Path ''/srv/store''"
        "io_write_file LocalIO (joinpath (Path ''/srv/store'') ''ria-layout-version'')
           ''2|some-config'' empty_world" "''2|some-config''"]
      create_store_conflict [of "''2''" LocalIO "Path ''/srv/store''" empty_world]
      v u
    by (simp add: io_read_file_write_file py_strip_def is_space_def)
qed

text \<open>
  The claim as the spec words it fails: after \<open>create_store(io, base, '1')\<close> the
  store is stamped \<open>1\<close>, and \<open>create_store(io, base, '2')\<close> is refused by the check of
  the supported versions, with \<open>UnknownLayoutVersion\<close>, before the version file is
  looked at; no conflict error reporting \<open>1\<close> is raised.
\<close>

theorem create_store_conflict_counterexample:
  "io_read_file LocalIO (joinpath (Path ''/srv/store'') ''ria-layout-version'')
     (snd (create_store LocalIO (Path ''/srv/store'') ''1'' empty_world)) = Inr ''1'' \<and>
   fst (create_store LocalIO (Path ''/srv/store'') ''2''
          (snd (create_store LocalIO (Path ''/srv/store'') ''1'' empty_world))) =
     Inl (UnknownLayoutVersion
            ''RIA store layout version unknown: 2.Supported versions: ['1']'') \<and>
   fst (create_store LocalIO (Path ''/srv/store'') ''2''
          (snd (create_store LocalIO (Path ''/srv/store'') ''1'' empty_world))) \<noteq>
     Inl (ValueError ''Conflicting version found at target: 1'')"
proof -
  have a: "io_read_file LocalIO (joinpath (Path ''/srv/store'') ''ria-layout-version'')
     (snd (create_store LocalIO (Path ''/srv/store'') ''1'' empty_world)) = Inr ''1''"
    by code_simp
  have b: "fst (create_store LocalIO (Path ''/srv/store'') ''2''
          (snd (create_store LocalIO (Path ''/srv/store'') ''1'' empty_world))) =
     Inl (UnknownLayoutVersion
            ''RIA store layout version unknown: 2.Supported versions: ['1']'')"
    by code_simp
  from a b show ?thesis by simp
qed

text \<open>
  C2. For a supported version, when the version file exists and its content before the
  first \<open>|\<close> equals the requested version before its first \<open>|\<close>, \<open>create_store\<close>
  succeeds and returns the world it was given: no directory is created, no file is
  written, no call is logged. So a call that succeeded can be repeated: the second call
  succeeds too and leaves the storage as the first call left it.
\<close>

theorem create_store_idempotent:
  assumes "version \<in> set known_versions_dst"
  shows "(io_exists b (joinpath base_path ''ria-layout-version'') w \<and>
          io_read_file b (joinpath base_path ''ria-layout-version'') w = Inr content \<and>
          takeWhile (\<lambda>c. c \<noteq> CHR ''|'') content = takeWhile (\<lambda>c. c \<noteq> CHR ''|'') version
          \<longrightarrow> create_store b base_path version w = (Inr (), w)) \<and>
         (fst (create_store b base_path version w) = Inr ()
          \<longrightarrow> create_store b base_path version (snd (create_store b base_path version w)) =
                (Inr (), snd (create_store b base_path version w)))"
proof -
  have v: "version = ''1''"
    using assms by (rule supported_store_version)
  let ?vf = "joinpath base_path ''ria-layout-version''"
  have noop: "create_store b base_path ''1'' w1 = (Inr (), w1)"
    if "io_exists b ?vf w1" and "io_read_file b ?vf w1 = Inr c1"
      and "first_field c1 = ''1''" for w1 c1
    using that
    by (simp add: create_store_def known_versions_dst_def Let_def first_field_1 py_strip_1)
  have one: "create_store b base_path ''1'' w = (Inr (), w)"
    if "io_exists b ?vf w" and "io_read_file b ?vf w = Inr content"
      and "takeWhile (\<lambda>c. c \<noteq> CHR ''|'') content = takeWhile (\<lambda>c. c \<noteq> CHR ''|'') ''1''"
    using that noop [of w content] by (simp add: first_field_takeWhile)
  have two: "create_store b base_path ''1'' (snd (create_store b base_path ''1'' w)) =
               (Inr (), snd (create_store b base_path ''1'' w))"
    if ok: "fst (create_store b base_path ''1'' w) = Inr ()"
  proof (cases "io_exists b ?vf w")
    case False
    then have s: "snd (create_store b base_path ''1'' w) =
        io_write_file b ?vf ''1'' (io_mkdir b (joinpath base_path ''error_logs'') w)"
      by (simp add: create_store_def known_versions_dst_def Let_def)
    show ?thesis
      unfolding s
      by (rule noop [OF io_exists_write_file io_read_file_write_file first_field_1])
  next
    case True
    show ?thesis
    proof (cases "io_read_file b ?vf w")
      case (Inl e)
      with True ok show ?thesis
        by (simp add: create_store_def known_versions_dst_def Let_def)
    next
      case (Inr c1)
      show ?thesis
      proof (cases "py_strip (first_field c1) = ''1''")
        case eq: True
        with True Inr have "create_store b base_path ''1'' w = (Inr (), w)"
          by (simp add: create_store_def known_versions_dst_def Let_def first_field_1)
        then show ?thesis by simp
      next
        case False
        with True Inr ok show ?thesis
          by (simp add: create_store_def known_versions_dst_def Let_def first_field_1)
      qed
    qed
  qed
  show ?thesis
    unfolding v using one two by blast
qed

theorem create_store_idempotent_witness:
  "fst (create_store LocalIO (Path ''/srv/store'') ''1'' empty_world) = Inr () \<and>
   create_store LocalIO (Path ''/srv/store'') ''1''
     (snd (create_store LocalIO (Path ''/srv/store'') ''1'' empty_world)) =
     (Inr (), snd (create_store LocalIO (Path ''/srv/store'') ''1'' empty_world))"
proof -
  have v: "''1'' \<in> set known_versions_dst"
    by (simp add: known_versions_dst_def)
  have ok: "fst (create_store LocalIO (Path ''/srv/store'') ''1'' empty_world) = Inr ()"
    by code_simp
  from create_store_idempotent [OF v, of LocalIO "Path ''/srv/store''" empty_world] ok
  show ?thesis by blast
qed

text \<open>
  C9. Whenever \<open>create_store\<close> or \<open>create_ds_in_store\<close> raises, be it for an unknown
  layout version or for a version conflict, it returns the world it was given: every
  check comes before the first \<open>mkdir\<close> and the first \<open>write_file\<close>, so no directory
  was created, no file was written and the log has no new entry.
\<close>

theorem initializers_error_atomic:
  "(fst (create_store b base_path version w) = Inl e1
      \<longrightarrow> snd (create_store b base_path version w) = w) \<and>
   (fst (create_ds_in_store b base_path dsid obj_version store_version w) = Inl e2
      \<longrightarrow> snd (create_ds_in_store b base_path dsid obj_version store_version w) = w)"
proof
  show "fst (create_store b base_path version w) = Inl e1
      \<longrightarrow> snd (create_store b base_path version w) = w"
    by (simp add: create_store_def Let_def split: sum.splits)
  show "fst (create_ds_in_store b base_path dsid obj_version store_version w) = Inl e2
      \<longrightarrow> snd (create_ds_in_store b base_path dsid obj_version store_version w) = w"
    by (simp add: create_ds_in_store_def Let_def split: sum.splits prod.splits)
qed

theorem initializers_error_atomic_witness:
  "snd (create_store LocalIO (Path ''/srv/store'') ''1''
          (io_write_file LocalIO (joinpath (Path ''/srv/store'') ''ria-layout-version'')
             ''2'' empty_world)) =
     io_write_file LocalIO (joinpath (Path ''/srv/store'') ''ria-layout-version'')
       ''2'' empty_world \<and>
   snd (create_ds_in_store LocalIO (Path ''/srv/store'') ''abcdef'' ''9'' ''1'' empty_world) =
     empty_world"
proof -
  let ?w = "io_write_file LocalIO (joinpath (Path ''/srv/store'') ''ria-layout-version'')
              ''2'' empty_world"
  have a: "fst (create_store LocalIO (Path ''/srv/store'') ''1'' ?w) =
             Inl (ValueError ''Conflicting version found at target: 2'')"
    by code_simp
  have b: "fst (create_ds_in_store LocalIO (Path ''/srv/store'') ''abcdef'' ''9'' ''1''
                  empty_world) =
             Inl (UnknownLayoutVersion
                    ''Dataset layout version unknown: 9. Supported: ['1', '2']'')"
    by code_simp
  from initializers_error_atomic [of LocalIO "Path ''/srv/store''" "''1''" ?w
      "ValueError ''Conflicting version found at target: 2''" "''abcdef''" "''9''" "''1''"
      "UnknownLayoutVersion ''Dataset layout version unknown: 9. Supported: ['1', '2']''"]
    initializers_error_atomic [of LocalIO "Path ''/srv/store''" "''1''" empty_world
      "ValueError ''Conflicting version found at target: 2''" "''abcdef''" "''9''" "''1''"
      "UnknownLayoutVersion ''Dataset layout version unknown: 9. Supported: ['1', '2']''"]
    a b
  show ?thesis by blast
qed

section \<open>The dataset initializer\<close>

text \<open>
  C6, as the code has it. In every run of \<open>create_ds_in_store\<close> that writes the
  version stamp, the calls it makes are, in this order, \<open>mkdir\<close> of the archive
  directory, \<open>mkdir\<close> of the object directory and \<open>write_file\<close> of the stamp, and the
  world it returns is the world these three calls produce. When at the start no stamp
  is there without its two directories (as when there is no stamp yet), the same holds
  in every state of the run: at the start, after each of the three calls and at the end.
\<close>

theorem create_ds_in_store_dirs_before_stamp:
  assumes loc: "locations_or_unknown store_version base_path dsid =
                  Inr (dsgit_dir, archive_dir, dsobj_dir)"
    and wr: "list_ex is_write
               (new_events w
                  (snd (create_ds_in_store b base_path dsid obj_version store_version w)))"
  shows "new_events w (snd (create_ds_in_store b base_path dsid obj_version store_version w)) =
           [Mkdir b archive_dir, Mkdir b dsobj_dir,
            WriteFile b (joinpath dsgit_dir ''ria-layout-version'') obj_version] \<and>
         snd (create_ds_in_store b base_path dsid obj_version store_version w) =
           replay [Mkdir b archive_dir, Mkdir b dsobj_dir,
                   WriteFile b (joinpath dsgit_dir ''ria-layout-version'') obj_version] w \<and>
         (stamp_has_dirs b (joinpath dsgit_dir ''ria-layout-version'') archive_dir dsobj_dir w
          \<longrightarrow> (\<forall>n \<le> 3. stamp_has_dirs b (joinpath dsgit_dir ''ria-layout-version'')
                           archive_dir dsobj_dir
                           (replay (take n [Mkdir b archive_dir, Mkdir b dsobj_dir,
                              WriteFile b (joinpath dsgit_dir ''ria-layout-version'')
                                obj_version]) w)))"
proof -
  let ?vf = "joinpath dsgit_dir ''ria-layout-version''"
  let ?w1 = "io_mkdir b archive_dir w"
  let ?w2 = "io_mkdir b dsobj_dir ?w1"
  let ?w3 = "io_write_file b ?vf obj_version ?w2"
  let ?res = "snd (create_ds_in_store b base_path dsid obj_version store_version w)"
  have dirs: "archive_dir = joinpath dsgit_dir ''archives''"
    "dsobj_dir = joinpath (joinpath dsgit_dir ''annex'') ''objects''"
    using locations_or_unknown_dirs [OF loc] by simp_all
  have res: "?res = ?w3"
    using create_ds_in_store_cases [OF loc, of b obj_version w] wr
    by (auto simp: new_events_self)
  have ev: "new_events w ?res =
      [Mkdir b archive_dir, Mkdir b dsobj_dir, WriteFile b ?vf obj_version]"
    unfolding res by (simp add: new_events_def log_io_write_file log_io_mkdir)
  have rp: "?res = replay [Mkdir b archive_dir, Mkdir b dsobj_dir, WriteFile b ?vf obj_version] w"
    unfolding res by (simp add: io_mkdir_def io_write_file_def)
  have inv: "stamp_has_dirs b ?vf archive_dir dsobj_dir
               (replay (take n [Mkdir b archive_dir, Mkdir b dsobj_dir,
                  WriteFile b ?vf obj_version]) w)"
    if start: "stamp_has_dirs b ?vf archive_dir dsobj_dir w" and n: "n \<le> 3" for n
  proof -
    have s1: "stamp_has_dirs b ?vf archive_dir dsobj_dir ?w1"
      using start version_file_not_above_archives [of dsgit_dir]
      by (auto simp: stamp_has_dirs_def dirs io_exists_mkdir_other io_exists_mkdir_mono)
    have s2: "stamp_has_dirs b ?vf archive_dir dsobj_dir ?w2"
      by (simp add: stamp_has_dirs_def io_exists_mkdir_self io_exists_mkdir_mono)
    have s3: "stamp_has_dirs b ?vf archive_dir dsobj_dir ?w3"
      by (simp add: stamp_has_dirs_def io_exists_mkdir_self io_exists_mkdir_mono
          io_exists_write_file_mono)
    from n consider "n = 0" | "n = 1" | "n = 2" | "n = 3"
      by linarith
    then show ?thesis
    proof cases
      case 1
      with start show ?thesis by simp
    next
      case 2
      with s1 show ?thesis by (simp add: io_mkdir_def)
    next
      case 3
      with s2 show ?thesis by (simp add: io_mkdir_def numeral_2_eq_2)
    next
      case 4
      with s3 show ?thesis by (simp add: io_mkdir_def io_write_file_def numeral_3_eq_3)
    qed
  qed
  from ev rp inv show ?thesis by blast
qed

theorem create_ds_in_store_dirs_before_stamp_witness:
  "new_events empty_world
     (snd (create_ds_in_store SSHRemoteIO (Path ''/srv/store'') ''abcdef'' ''1'' ''1''
             empty_world)) =
     [Mkdir SSHRemoteIO \<lparr>proot = ''/'', pparts = [''srv'', ''store'', ''abc'', ''def'', ''archives'']\<rparr>,
      Mkdir SSHRemoteIO
        \<lparr>proot = ''/'', pparts = [''srv'', ''store'', ''abc'', ''def'', ''annex'', ''objects'']\<rparr>,
      WriteFile SSHRemoteIO
        (joinpath \<lparr>proot = ''/'', pparts = [''srv'', ''store'', ''abc'', ''def'']\<rparr>
           ''ria-layout-version'') ''1''] \<and>
   stamp_has_dirs SSHRemoteIO
     (joinpath \<lparr>proot = ''/'', pparts = [''srv'', ''store'', ''abc'', ''def'']\<rparr>
        ''ria-layout-version'')
     \<lparr>proot = ''/'', pparts = [''srv'', ''store'', ''abc'', ''def'', ''archives'']\<rparr>
     \<lparr>proot = ''/'', pparts = [''srv'', ''store'', ''abc'', ''def'', ''annex'', ''objects'']\<rparr>
     (replay (take 2
        [Mkdir SSHRemoteIO
           \<lparr>proot = ''/'', pparts = [''srv'', ''store'', ''abc'', ''def'', ''archives'']\<rparr>,
         Mkdir SSHRemoteIO
           \<lparr>proot = ''/'', pparts = [''srv'', ''store'', ''abc'', ''def'', ''annex'', ''objects'']\<rparr>,
         WriteFile SSHRemoteIO
           (joinpath \<lparr>proot = ''/'', pparts = [''srv'', ''store'', ''abc'', ''def'']\<rparr>
              ''ria-layout-version'') ''1''])
        empty_world)"
proof -
  have loc: "locations_or_unknown ''1'' (Path ''/srv/store'') ''abcdef'' =
      Inr (\<lparr>proot = ''/'', pparts = [''srv'', ''store'', ''abc'', ''def'']\<rparr>,
           \<lparr>proot = ''/'', pparts = [''srv'', ''store'', ''abc'', ''def'', ''archives'']\<rparr>,
           \<lparr>proot = ''/'', pparts = [''srv'', ''store'', ''abc'', ''def'', ''annex'', ''objects'']\<rparr>)"
    by code_simp
  have wr: "list_ex is_write
      (new_events empty_world
         (snd (create_ds_in_store SSHRemoteIO (Path ''/srv/store'') ''abcdef'' ''1'' ''1''
                 empty_world)))"
    by code_simp
  have start: "stamp_has_dirs SSHRemoteIO
      (joinpath \<lparr>proot = ''/'', pparts = [''srv'', ''store'', ''abc'', ''def'']\<rparr>
         ''ria-layout-version'')
      \<lparr>proot = ''/'', pparts = [''srv'', ''store'', ''abc'', ''def'', ''archives'']\<rparr>
      \<lparr>proot = ''/'', pparts = [''srv'', ''store'', ''abc'', ''def'', ''annex'', ''objects'']\<rparr>
      empty_world"
    by (simp add: stamp_has_dirs_def io_exists_def fs_exists_def fs_of_def empty_world_def)
  have two: "(2::nat) \<le> 3"
    by simp
  from create_ds_in_store_dirs_before_stamp [OF loc wr] start two
  show ?thesis by blast
qed

text \<open>
  The claim as the spec words it fails on a dataset that is set up again: a matching
  stamp neither raises nor returns, so the directories are made anew. Starting with the
  stamp \<open>1\<close> in place and no directories, the run writes the stamp, and in the state
  after its first call, \<open>mkdir\<close> of the archive directory, the stamp is present while
  the object directory is not.
\<close>

theorem create_ds_in_store_dirs_before_stamp_counterexample:
  "list_ex is_write
     (new_events
        (io_write_file LocalIO
           (joinpath (joinpath (joinpath (Path ''/srv/store'') ''abc'') ''def'')
              ''ria-layout-version'') ''1'' empty_world)
        (snd (create_ds_in_store LocalIO (Path ''/srv/store'') ''abcdef'' ''1'' ''1''
                (io_write_file LocalIO
                   (joinpath (joinpath (joinpath (Path ''/srv/store'') ''abc'') ''def'')
                      ''ria-layout-version'') ''1'' empty_world)))) \<and>
   take 1
     (new_events
        (io_write_file LocalIO
           (joinpath (joinpath (joinpath (Path ''/srv/store'') ''abc'') ''def'')
              ''ria-layout-version'') ''1'' empty_world)
        (snd (create_ds_in_store LocalIO (Path ''/srv/store'') ''abcdef'' ''1'' ''1''
                (io_write_file LocalIO
                   (joinpath (joinpath (joinpath (Path ''/srv/store'') ''abc'') ''def'')
                      ''ria-layout-version'') ''1'' empty_world)))) =
     [Mkdir LocalIO
        (joinpath (joinpath (joinpath (Path ''/srv/store'') ''abc'') ''def'') ''archives'')] \<and>
   io_exists LocalIO
     (joinpath (joinpath (joinpath (Path ''/srv/store'') ''abc'') ''def'') ''ria-layout-version'')
     (replay
        [Mkdir LocalIO
           (joinpath (joinpath (joinpath (Path ''/srv/store'') ''abc'') ''def'') ''archives'')]
        (io_write_file LocalIO
           (joinpath (joinpath (joinpath (Path ''/srv/store'') ''abc'') ''def'')
              ''ria-layout-version'') ''1'' empty_world)) \<and>
   \<not> io_exists LocalIO
     (joinpath (joinpath (joinpath (joinpath (Path ''/srv/store'') ''abc'') ''def'') ''annex'')
        ''objects'')
     (replay
        [Mkdir LocalIO
           (joinpath (joinpath (joinpath (Path ''/srv/store'') ''abc'') ''def'') ''archives'')]
        (io_write_file LocalIO
           (joinpath (joinpath (joinpath (Path ''/srv/store'') ''abc'') ''def'')
              ''ria-layout-version'') ''1'' empty_world))"
proof -
  let ?repo = "joinpath (joinpath (Path ''/srv/store'') ''abc'') ''def''"
  let ?w = "io_write_file LocalIO (joinpath ?repo ''ria-layout-version'') ''1'' empty_world"
  let ?run = "snd (create_ds_in_store LocalIO (Path ''/srv/store'') ''abcdef'' ''1'' ''1'' ?w)"
  have a: "list_ex is_write (new_events ?w ?run)"
    by code_simp
  have b: "take 1 (new_events ?w ?run) = [Mkdir LocalIO (joinpath ?repo ''archives'')]"
    by code_simp
  have c: "io_exists LocalIO (joinpath ?repo ''ria-layout-version'')
             (replay [Mkdir LocalIO (joinpath ?repo ''archives'')] ?w)"
    by code_simp
  have d: "\<not> io_exists LocalIO (joinpath (joinpath ?repo ''annex'') ''objects'')
             (replay [Mkdir LocalIO (joinpath ?repo ''archives'')] ?w)"
    by code_simp
  from a b c d show ?thesis by simp
qed

text \<open>
  C5 does not hold of the code. \<open>create_ds_in_store\<close> creates the directories and
  writes the stamp through \<open>io\<close>, but looks for an earlier stamp with \<open>Path.exists\<close>
  and \<open>Path.read_text\<close>, on the local file system. With the remote backend a dataset
  stamped \<open>2\<close> in the store is not seen: a second call asking for \<open>1\<close> succeeds and
  overwrites the stamp. The same two calls with the local backend end in the conflict,
  as \<open>create_store\<close>, which asks \<open>io\<close>, would have it.
\<close>

theorem create_ds_in_store_remote_stamp_unseen:
  "io_read_file SSHRemoteIO
     (joinpath (joinpath (joinpath (Path ''/srv/store'') ''abc'') ''def'') ''ria-layout-version'')
     (snd (create_ds_in_store SSHRemoteIO (Path ''/srv/store'') ''abcdef'' ''2'' ''1''
             empty_world)) = Inr ''2'' \<and>
   fst (create_ds_in_store SSHRemoteIO (Path ''/srv/store'') ''abcdef'' ''1'' ''1''
          (snd (create_ds_in_store SSHRemoteIO (Path ''/srv/store'') ''abcdef'' ''2'' ''1''
                  empty_world))) = Inr () \<and>
   io_read_file SSHRemoteIO
     (joinpath (joinpath (joinpath (Path ''/srv/store'') ''abc'') ''def'') ''ria-layout-version'')
     (snd (create_ds_in_store SSHRemoteIO (Path ''/srv/store'') ''abcdef'' ''1'' ''1''
        (snd (create_ds_in_store SSHRemoteIO (Path ''/srv/store'') ''abcdef'' ''2'' ''1''
                empty_world)))) = Inr ''1'' \<and>
   fst (create_ds_in_store LocalIO (Path ''/srv/store'') ''abcdef'' ''1'' ''1''
          (snd (create_ds_in_store LocalIO (Path ''/srv/store'') ''abcdef'' ''2'' ''1''
                  empty_world))) =
     Inl (ValueError ''Conflicting dataset layout version found at target: 2'')"
proof -
  have a: "io_read_file SSHRemoteIO
     (joinpath (joinpath (joinpath (Path ''/srv/store'') ''abc'') ''def'') ''ria-layout-version'')
     (snd (create_ds_in_store SSHRemoteIO (Path ''/srv/store'') ''abcdef'' ''2'' ''1''
             empty_world)) = Inr ''2''"
    by code_simp
  have b: "fst (create_ds_in_store SSHRemoteIO (Path ''/srv/store'') ''abcdef'' ''1'' ''1''
          (snd (create_ds_in_store SSHRemoteIO (Path ''/srv/store'') ''abcdef'' ''2'' ''1''
                  empty_world))) = Inr ()"
    by code_simp
  have c: "io_read_file SSHRemoteIO
     (joinpath (joinpath (joinpath (Path ''/srv/store'') ''abc'') ''def'') ''ria-layout-version'')
     (snd (create_ds_in_store SSHRemoteIO (Path ''/srv/store'') ''abcdef'' ''1'' ''1''
        (snd (create_ds_in_store SSHRemoteIO (Path ''/srv/store'') ''abcdef'' ''2'' ''1''
                empty_world)))) = Inr ''1''"
    by code_simp
  have d: "fst (create_ds_in_store LocalIO (Path ''/srv/store'') ''abcdef'' ''1'' ''1''
          (snd (create_ds_in_store LocalIO (Path ''/srv/store'') ''abcdef'' ''2'' ''1''
                  empty_world))) =
     Inl (ValueError ''Conflicting dataset layout version found at target: 2'')"
    by code_simp
  from a b c d show ?thesis by simp
qed

section \<open>The URL verifier\<close>

text \<open>
  C7. For a URL that is not empty (an empty one is refused before any rewriting) and
  whose rewritten form parses with the scheme \<open>ria+p\<close>, \<open>p\<close> being \<open>ssh\<close> or \<open>file\<close>,
  and without fragment, \<open>verify_ria_url\<close> returns the host name when \<open>p\<close> is \<open>ssh\<close>
  and \<open>None\<close> otherwise, the path component, and the rewritten URL. The witness
  evaluates the two examples of the spec, with no rewrite rule and the parser modelled
  from the spec.
\<close>

theorem verify_ria_url_decodes:
  assumes "url \<noteq> []"
    and "scheme (URL (rewrite_url cfg url)) = ''ria+'' @ p"
    and "p = ''ssh'' \<or> p = ''file''"
    and "fragment (URL (rewrite_url cfg url)) = []"
  shows "verify_ria_url rewrite_url URL url cfg =
           Inr (if p = ''ssh'' then Some (hostname (URL (rewrite_url cfg url))) else None,
                path (URL (rewrite_url cfg url)),
                rewrite_url cfg url)"
  using assms by (auto simp: verify_ria_url_def Let_def)

theorem verify_ria_url_decodes_witness:
  "verify_ria_url no_rewrite spec_URL ''ria+ssh://host.example/store/path'' () =
     Inr (Some ''host.example'', ''/store/path'', ''ria+ssh://host.example/store/path'') \<and>
   verify_ria_url no_rewrite spec_URL ''ria+file:///local/store'' () =
     Inr (None, ''/local/store'', ''ria+file:///local/store'')"
proof -
  have s: "spec_URL ''ria+ssh://host.example/store/path'' =
      \<lparr>scheme = ''ria+ssh'', hostname = ''host.example'', path = ''/store/path'',
       fragment = []\<rparr>"
    by code_simp
  have f: "spec_URL ''ria+file:///local/store'' =
      \<lparr>scheme = ''ria+file'', hostname = [], path = ''/local/store'', fragment = []\<rparr>"
    by code_simp
  show ?thesis
    using verify_ria_url_decodes [of "''ria+ssh://host.example/store/path''" spec_URL
        no_rewrite "()" "''ssh''"]
      verify_ria_url_decodes [of "''ria+file:///local/store''" spec_URL no_rewrite "()"
        "''file''"]
    by (simp add: no_rewrite_def s f)
qed

section \<open>The archive helper\<close>



end
